theory Spec2Isabelle
  imports Complex_Main "HOL-Library.AList"
begin

section \<open>Reminder workflow (workflows/TaskWorkflow)\<close>

subsection \<open>JavaScript truthiness of the values involved\<close>

text \<open>
  \<open>a || b\<close> on optional numbers: \<open>undefined\<close>, \<open>null\<close> and \<open>0\<close> are falsy.
  \<open>a || b\<close> on optional strings: \<open>undefined\<close>, \<open>null\<close> and the empty string are falsy.
\<close>

definition truthy_num :: "int option \<Rightarrow> bool" where
  "truthy_num a = (case a of None \<Rightarrow> False | Some n \<Rightarrow> n \<noteq> 0)"

definition or_num :: "int option \<Rightarrow> int option \<Rightarrow> int option" where
  "or_num a b = (if truthy_num a then a else b)"

definition truthy_str :: "string option \<Rightarrow> bool" where
  "truthy_str a = (case a of None \<Rightarrow> False | Some s \<Rightarrow> s \<noteq> [])"

definition or_str :: "string option \<Rightarrow> string option \<Rightarrow> string option" where
  "or_str a b = (if truthy_str a then a else b)"

text \<open>\<open>a || 'literal'\<close>, whose result is always a string.\<close>

definition or_default :: "string option \<Rightarrow> string \<Rightarrow> string" where
  "or_default a d = (case a of None \<Rightarrow> d | Some s \<Rightarrow> if s = [] then d else s)"

subsection \<open>Tables, parameters and results\<close>

text \<open>A row of the \<open>tasks\<close> table; every column but the keys and the title is nullable.\<close>

record task_row =
  row_id :: string
  row_user_id :: string
  row_title :: string
  row_description :: "string option"
  row_due_date :: "int option"
  row_completed :: "int option"
  row_priority :: "string option"
  row_created_at :: "int option"
  row_completed_at :: "int option"

text \<open>A row of the \<open>conversations\<close> table, the durable conversation log.\<close>

record conv_row =
  conv_id :: nat
  conv_user_id :: string
  conv_role :: string
  conv_content :: string
  conv_timestamp :: int
  conv_meta_type :: string
  conv_meta_taskId :: string

text \<open>The \<open>Task\<close> interface of types/env: what the verify step and \<open>createTask\<close> return.\<close>

record task =
  task_id :: string
  task_userId :: string
  task_title :: string
  task_description :: "string option"
  task_dueDate :: "int option"
  task_completed :: bool
  task_priority :: string
  task_createdAt :: "int option"

record task_details =
  td_title :: string
  td_description :: "string option"
  td_priority :: "string option"

record workflow_params =
  wp_userId :: string
  wp_taskId :: string
  wp_action :: string
  wp_dueDate :: "int option"
  wp_taskDetails :: "task_details option"

record reminder_time =
  reminderTimestamp :: int
  rt_dueDate :: int
  shouldSendNow :: bool
  timeUntilReminder :: int

record reminder_result =
  success :: bool
  message :: string
  reminderSent :: "bool option"
  scheduledFor :: "int option"
  res_taskId :: "string option"
  res_data :: "(string \<times> int) option"

text \<open>A thrown \<open>Error\<close>, with its message.\<close>

datatype wf_error = Error string

text \<open>
  What the run does besides returning: each execution of a step body and each sleep is
  recorded, in order.
\<close>

datatype wf_event = StepRun string | Slept string int

text \<open>
  The world a run acts on: the two tables, the clock (\<open>Date.now()\<close>, milliseconds), the
  supply of fresh identifiers (\<open>crypto.randomUUID()\<close>) and the record of events.
\<close>

record world =
  tasks :: "task_row list"
  conversations :: "conv_row list"
  clock_ms :: int
  next_uuid :: nat
  events :: "wf_event list"

subsection \<open>The step engine\<close>

text \<open>
  \<open>step.do(name, body)\<close> belongs to the platform (\<open>cloudflare:workers\<close>). The workflow
  class documents it as "Each step is retried automatically on failure", the code passes no
  retry configuration and throws plain \<open>Error\<close>s only. The number of retries the engine
  grants a failing step is therefore a parameter \<open>retries\<close> of the model: a body that throws
  is run again until it returns or the retries are used up, and the last error then
  propagates out of the run.
\<close>

fun step_do :: "nat \<Rightarrow> string \<Rightarrow> (world \<Rightarrow> (wf_error + 'a) \<times> world) \<Rightarrow> world
    \<Rightarrow> (wf_error + 'a) \<times> world" where
  "step_do 0 name body w = body (w\<lparr>events := events w @ [StepRun name]\<rparr>)"
| "step_do (Suc n) name body w =
     (case body (w\<lparr>events := events w @ [StepRun name]\<rparr>) of
        (Inr v, w') \<Rightarrow> (Inr v, w')
      | (Inl e, w') \<Rightarrow> step_do n name body w')"

definition step_sleep :: "string \<Rightarrow> int \<Rightarrow> world \<Rightarrow> world" where
  "step_sleep name ms w = w\<lparr>clock_ms := clock_ms w + ms, events := events w @ [Slept name ms]\<rparr>"

subsection \<open>The steps of the reminder workflow\<close>

text \<open>\<open>SELECT ... FROM tasks WHERE id = ? AND user_id = ?\<close> with \<open>.first()\<close>.\<close>

definition select_task :: "string \<Rightarrow> string \<Rightarrow> task_row list \<Rightarrow> task_row option" where
  "select_task tid uid rows = find (\<lambda>r. row_id r = tid \<and> row_user_id r = uid) rows"

text \<open>\<open>Boolean(result.completed)\<close> on the integer column.\<close>

definition to_bool :: "int option \<Rightarrow> bool" where
  "to_bool c = truthy_num c"

definition now_seconds :: "world \<Rightarrow> int" where
  "now_seconds w = clock_ms w div 1000"

text \<open>The object the verify step builds from the row it read.\<close>

definition task_of_row :: "task_row \<Rightarrow> task" where
  "task_of_row r =
     \<lparr>task_id = row_id r, task_userId = row_user_id r, task_title = row_title r,
      task_description = row_description r, task_dueDate = row_due_date r,
      task_completed = to_bool (row_completed r),
      task_priority = or_default (row_priority r) ''medium'',
      task_createdAt = row_created_at r\<rparr>"

definition verify_task :: "workflow_params \<Rightarrow> world \<Rightarrow> (wf_error + task) \<times> world" where
  "verify_task params w =
     (case select_task (wp_taskId params) (wp_userId params) (tasks w) of
        None \<Rightarrow> (Inl (Error ''Task not found''), w)
      | Some r \<Rightarrow> (Inr (task_of_row r), w))"

definition calculate_reminder_time ::
    "workflow_params \<Rightarrow> task \<Rightarrow> world \<Rightarrow> (wf_error + reminder_time) \<times> world" where
  "calculate_reminder_time params task w =
     (case or_num (wp_dueDate params) (task_dueDate task) of
        None \<Rightarrow> (Inl (Error ''No due date set for task''), w)
      | Some dueDate \<Rightarrow>
          if dueDate = 0 then (Inl (Error ''No due date set for task''), w)
          else
            let ts = dueDate - (24 * 60 * 60);
                now = now_seconds w
            in (Inr \<lparr>reminderTimestamp = ts, rt_dueDate = dueDate, shouldSendNow = (ts \<le> now),
                      timeUntilReminder = max 0 (ts - now)\<rparr>, w))"

definition recheck_task_status :: "workflow_params \<Rightarrow> world \<Rightarrow> (wf_error + bool) \<times> world" where
  "recheck_task_status params w =
     (case select_task (wp_taskId params) (wp_userId params) (tasks w) of
        None \<Rightarrow> (Inr False, w)
      | Some r \<Rightarrow> (Inr (\<not> to_bool (row_completed r)), w))"

definition send_reminder ::
    "workflow_params \<Rightarrow> task \<Rightarrow> world \<Rightarrow> (wf_error + bool) \<times> world" where
  "send_reminder params task w =
     (let reminderMessage = ''Reminder: Task \"'' @ task_title task
            @ ''\" is due in 24 hours (Priority: '' @ task_priority task @ '')'';
          messageId = next_uuid w;
          now = now_seconds w
      in (Inr True,
          w\<lparr>conversations := conversations w @
               [\<lparr>conv_id = messageId, conv_user_id = wp_userId params, conv_role = ''system'',
                 conv_content = reminderMessage, conv_timestamp = now,
                 conv_meta_type = ''task_reminder'', conv_meta_taskId = wp_taskId params\<rparr>],
            next_uuid := Suc messageId\<rparr>))"

subsection \<open>The run\<close>

text \<open>
  \<open>later\<close> is the content of the \<open>tasks\<close> table when the recheck step reads it: between
  the verify step and the recheck step (and across the sleep) connected clients may have
  completed or deleted the task.
\<close>

definition handleReminderWorkflow ::
    "nat \<Rightarrow> workflow_params \<Rightarrow> task_row list \<Rightarrow> world \<Rightarrow> (wf_error + reminder_result) \<times> world" where
  "handleReminderWorkflow retries params later w =
     (case step_do retries ''verify-task'' (verify_task params) w of
        (Inl e, w1) \<Rightarrow> (Inl e, w1)
      | (Inr task, w1) \<Rightarrow>
          if task_completed task then
            (Inr \<lparr>success = True, message = ''Task already completed, reminder skipped'',
                  reminderSent = Some False, scheduledFor = None,
                  res_taskId = Some (wp_taskId params), res_data = None\<rparr>, w1)
          else
            (case step_do retries ''calculate-reminder-time''
                    (calculate_reminder_time params task) w1 of
               (Inl e, w2) \<Rightarrow> (Inl e, w2)
             | (Inr reminderTime, w2) \<Rightarrow>
                 let w3 = (if \<not> shouldSendNow reminderTime \<and> timeUntilReminder reminderTime > 0
                           then step_sleep ''wait-for-reminder-time''
                                  (timeUntilReminder reminderTime * 1000) w2
                           else w2);
                     w4 = w3\<lparr>tasks := later\<rparr>
                 in (case step_do retries ''recheck-task-status'' (recheck_task_status params) w4 of
                       (Inl e, w5) \<Rightarrow> (Inl e, w5)
                     | (Inr taskStillIncomplete, w5) \<Rightarrow>
                         if \<not> taskStillIncomplete then
                           (Inr \<lparr>success = True,
                                 message = ''Task completed or deleted before reminder time'',
                                 reminderSent = Some False, scheduledFor = None,
                                 res_taskId = Some (wp_taskId params), res_data = None\<rparr>, w5)
                         else
                           (case step_do retries ''send-reminder'' (send_reminder params task) w5 of
                              (Inl e, w6) \<Rightarrow> (Inl e, w6)
                            | (Inr sent, w6) \<Rightarrow>
                                (Inr \<lparr>success = True,
                                      message = ''Reminder sent for task: '' @ task_title task,
                                      reminderSent = Some sent,
                                      scheduledFor = Some (reminderTimestamp reminderTime),
                                      res_taskId = Some (wp_taskId params),
                                      res_data = Some (task_title task, rt_dueDate reminderTime)\<rparr>,
                                 w6)))))"


text \<open>The sleeps a run has performed, read off the record of events.\<close>

fun sleeps :: "wf_event list \<Rightarrow> (string \<times> int) list" where
  "sleeps [] = []"
| "sleeps (StepRun n # es) = sleeps es"
| "sleeps (Slept n ms # es) = (n, ms) # sleeps es"

section \<open>The per-user actor (agent/PersonalAssistant)\<close>

subsection \<open>Data\<close>

datatype role = User | Assistant | System

text \<open>The \<open>Message\<close> interface of types/env.\<close>

record chat_message =
  msg_id :: string
  msg_role :: role
  msg_content :: string
  msg_timestamp :: int
  msg_metadata :: "(string \<times> string) list option"

text \<open>
  A platform WebSocket handle. The sessions map is keyed by object identity, here \<open>ws_id\<close>;
  the tags given to \<open>acceptWebSocket\<close> and the serialized attachment live on the handle
  and survive hibernation. A missing or undeserializable attachment is \<open>None\<close>.
\<close>

record attachment =
  att_userId :: string
  att_connectedAt :: int

record websocket =
  ws_id :: nat
  ws_tags :: "string list"
  ws_attachment :: "attachment option"

record ws_session =
  sess_webSocket :: nat
  sess_userId :: string
  sess_connectedAt :: int

text \<open>The \<open>AgentState\<close> interface of types/env.\<close>

record agent_state =
  as_userId :: string
  conversationHistory :: "chat_message list"
  activeWebSockets :: nat
  lastActivity :: int

text \<open>
  The actor: the in-memory \<open>sessions\<close> map (a JavaScript \<open>Map\<close>: insertion-ordered,
  \<open>set\<close> on a present key replaces the value in place), \<open>state\<close>, \<open>userId\<close>, and the
  durable storage entry \<open>'state'\<close>, which outlives the instance.
\<close>

record actor =
  act_sessions :: "(nat \<times> ws_session) list"
  act_state :: agent_state
  act_userId :: string
  act_storage :: "agent_state option"

datatype response = Response (status: nat) (error_text: "string option")

subsection \<open>Construction, persistence and recovery\<close>

definition sessions_size :: "(nat \<times> ws_session) list \<Rightarrow> nat" where
  "sessions_size m = length m"

definition saveState :: "actor \<Rightarrow> actor" where
  "saveState a = a\<lparr>act_storage := Some (act_state a)\<rparr>"

text \<open>The identity recovered from a handle: \<open>attachment.userId || userId\<close> and
  \<open>attachment.connectedAt || connectedAt\<close> over the defaults given.\<close>

definition from_attachment :: "websocket \<Rightarrow> string option \<Rightarrow> int \<Rightarrow> string option \<times> int" where
  "from_attachment ws userId connectedAt =
     (case ws_attachment ws of
        None \<Rightarrow> (userId, connectedAt)
      | Some att \<Rightarrow>
          (or_str (Some (att_userId att)) userId,
           if att_connectedAt att \<noteq> 0 then att_connectedAt att else connectedAt))"

text \<open>\<open>tags[0]\<close> of \<open>ws.tags || []\<close>.\<close>

definition first_tag :: "websocket \<Rightarrow> string option" where
  "first_tag ws = (case ws_tags ws of [] \<Rightarrow> None | t # _ \<Rightarrow> Some t)"

definition rebuild_one :: "string \<Rightarrow> int \<Rightarrow> (nat \<times> ws_session) list \<Rightarrow> websocket
    \<Rightarrow> (nat \<times> ws_session) list" where
  "rebuild_one own now m ws =
     (let (userId, connectedAt) = from_attachment ws (or_str (first_tag ws) (Some own)) now
      in AList.update (ws_id ws)
           \<lparr>sess_webSocket = ws_id ws, sess_userId = or_default userId [],
            sess_connectedAt = connectedAt\<rparr> m)"

text \<open>\<open>activeWebSockets\<close> is what \<open>ctx.getWebSockets()\<close> reports.\<close>

definition rebuildSessions :: "websocket list \<Rightarrow> int \<Rightarrow> actor \<Rightarrow> actor" where
  "rebuildSessions activeWebSockets' now a =
     (let m = foldl (rebuild_one (act_userId a) now) [] activeWebSockets'
      in a\<lparr>act_sessions := m,
            act_state := (act_state a)\<lparr>activeWebSockets := sessions_size m\<rparr>\<rparr>)"

text \<open>
  The constructor followed by \<open>loadState\<close>, on the storage a previous instance left.
  \<open>hist\<close> is the result of \<open>loadConversationHistory\<close>; the database query is taken to succeed.
\<close>

definition constructor :: "agent_state option \<Rightarrow> int \<Rightarrow> actor" where
  "constructor stored now =
     \<lparr>act_sessions = [],
      act_state = \<lparr>as_userId = [], conversationHistory = [], activeWebSockets = 0,
                   lastActivity = now\<rparr>,
      act_userId = [], act_storage = stored\<rparr>"

definition loadState :: "chat_message list \<Rightarrow> websocket list \<Rightarrow> int \<Rightarrow> actor \<Rightarrow> actor" where
  "loadState hist wss now a =
     (case act_storage a of
        None \<Rightarrow> a
      | Some stored \<Rightarrow>
          let a1 = a\<lparr>act_state := stored, act_userId := as_userId stored\<rparr>;
              a2 = (if act_userId a1 \<noteq> []
                    then a1\<lparr>act_state := (act_state a1)\<lparr>conversationHistory := hist\<rparr>\<rparr>
                    else a1)
          in rebuildSessions wss now a2)"

definition activate :: "agent_state option \<Rightarrow> chat_message list \<Rightarrow> websocket list \<Rightarrow> int \<Rightarrow> actor" where
  "activate stored hist wss now = loadState hist wss now (constructor stored now)"

subsection \<open>Connection establishment\<close>

text \<open>
  \<open>userId\<close> is \<open>url.searchParams.get('userId')\<close>, \<open>None\<close> when the parameter is absent;
  \<open>fresh\<close> is the identity of the server end of the new \<open>WebSocketPair\<close>. The result is
  the response, the socket handed to \<open>ctx.acceptWebSocket\<close> (if any) and the actor.
\<close>

definition handleWebSocketUpgrade ::
    "string option \<Rightarrow> nat \<Rightarrow> int \<Rightarrow> actor \<Rightarrow> response \<times> websocket option \<times> actor" where
  "handleWebSocketUpgrade userId fresh now a =
     (case userId of
        None \<Rightarrow> (Response 400 (Some ''userId is required''), None, a)
      | Some u \<Rightarrow>
          if u = [] then (Response 400 (Some ''userId is required''), None, a)
          else
            let canonicalUserId = (if as_userId (act_state a) \<noteq> [] then as_userId (act_state a) else u)
            in if as_userId (act_state a) \<noteq> [] \<and> as_userId (act_state a) \<noteq> u
               then (Response 409 (Some ''userId mismatch''), None, a)
               else
                 let server = \<lparr>ws_id = fresh, ws_tags = [canonicalUserId],
                               ws_attachment = Some \<lparr>att_userId = canonicalUserId,
                                                      att_connectedAt = now\<rparr>\<rparr>;
                     session = \<lparr>sess_webSocket = fresh, sess_userId = canonicalUserId,
                                sess_connectedAt = now\<rparr>;
                     m = AList.update fresh session (act_sessions a);
                     a1 = a\<lparr>act_sessions := m, act_userId := canonicalUserId,
                            act_state := (act_state a)\<lparr>as_userId := canonicalUserId,
                                                        activeWebSockets := sessions_size m\<rparr>\<rparr>
                 in (Response 101 None, Some server, saveState a1))"

subsection \<open>Messages, close and error\<close>

text \<open>
  The head of \<open>webSocketMessage\<close>: the session of the handle, recovered from its tags and
  attachment when the map does not have it. \<open>None\<close> is the "Session lost" reply.
\<close>

definition recover_session :: "websocket \<Rightarrow> int \<Rightarrow> actor \<Rightarrow> ws_session option \<times> actor" where
  "recover_session ws now a =
     (case map_of (act_sessions a) (ws_id ws) of
        Some session \<Rightarrow> (Some session, a)
      | None \<Rightarrow>
          let (userId, connectedAt) = from_attachment ws (first_tag ws) now
          in if truthy_str userId then
               let session = \<lparr>sess_webSocket = ws_id ws, sess_userId = or_default userId [],
                              sess_connectedAt = connectedAt\<rparr>;
                   m = AList.update (ws_id ws) session (act_sessions a)
               in (Some session,
                   a\<lparr>act_sessions := m,
                     act_state := (act_state a)\<lparr>activeWebSockets := sessions_size m\<rparr>\<rparr>)
             else (None, a))"

text \<open>
  What arrives: a binary frame, text that \<open>JSON.parse\<close> rejects, or a parsed message whose
  handler appends \<open>pushed\<close> to the conversation history and then returns or throws
  (\<open>threw\<close>). The handlers touch no other field of the actor.
\<close>

datatype inbound = Binary | BadJson | Parsed (pushed: "chat_message list") (threw: bool)

definition webSocketMessage :: "websocket \<Rightarrow> int \<Rightarrow> inbound \<Rightarrow> actor \<Rightarrow> actor" where
  "webSocketMessage ws now msg a =
     (case recover_session ws now a of
        (None, a1) \<Rightarrow> a1
      | (Some session, a1) \<Rightarrow>
          (case msg of
             Binary \<Rightarrow> a1
           | BadJson \<Rightarrow> a1
           | Parsed ms thr \<Rightarrow>
               let a2 = a1\<lparr>act_state := (act_state a1)
                          \<lparr>conversationHistory := conversationHistory (act_state a1) @ ms\<rparr>\<rparr>
               in if thr then a2
                  else saveState (a2\<lparr>act_state := (act_state a2)\<lparr>lastActivity := now\<rparr>\<rparr>)))"

definition webSocketClose :: "websocket \<Rightarrow> actor \<Rightarrow> actor" where
  "webSocketClose ws a =
     saveState
       (case map_of (act_sessions a) (ws_id ws) of
          Some session \<Rightarrow>
            let m = AList.delete (ws_id ws) (act_sessions a)
            in a\<lparr>act_sessions := m,
                 act_state := (act_state a)\<lparr>activeWebSockets := sessions_size m\<rparr>\<rparr>
        | None \<Rightarrow> a)"

definition webSocketError :: "websocket \<Rightarrow> actor \<Rightarrow> actor" where
  "webSocketError ws a =
     (case map_of (act_sessions a) (ws_id ws) of
        Some session \<Rightarrow>
          let m = AList.delete (ws_id ws) (act_sessions a)
          in a\<lparr>act_sessions := m,
               act_state := (act_state a)\<lparr>activeWebSockets := sessions_size m\<rparr>\<rparr>
      | None \<Rightarrow> a)"

subsection \<open>Life of an actor\<close>

text \<open>
  The events an actor sees. \<open>Reactivate\<close> is hibernation followed by a new instance: memory
  is lost, storage and the platform's live handles remain.
\<close>

datatype actor_event =
    Upgrade "string option" nat int
  | Message websocket int inbound
  | Close websocket
  | Failure websocket
  | Reactivate "chat_message list" "websocket list" int

fun apply_event :: "actor \<Rightarrow> actor_event \<Rightarrow> actor" where
  "apply_event a (Upgrade userId fresh now) = snd (snd (handleWebSocketUpgrade userId fresh now a))"
| "apply_event a (Message ws now msg) = webSocketMessage ws now msg a"
| "apply_event a (Close ws) = webSocketClose ws a"
| "apply_event a (Failure ws) = webSocketError ws a"
| "apply_event a (Reactivate hist wss now) = activate (act_storage a) hist wss now"

definition run_events :: "actor \<Rightarrow> actor_event list \<Rightarrow> actor" where
  "run_events a evs = foldl apply_event a evs"

text \<open>The registry agrees with the counter, and no handle is registered twice.\<close>

definition registry_ok :: "actor \<Rightarrow> bool" where
  "registry_ok a \<longleftrightarrow>
     activeWebSockets (act_state a) = sessions_size (act_sessions a)
     \<and> distinct (map fst (act_sessions a))"


subsection \<open>Task creation and the reminder trigger\<close>

text \<open>The fields of a \<open>create_task\<close> message the handler reads.\<close>

record create_task_data =
  ct_title :: string
  ct_description :: "string option"
  ct_dueDate :: "int option"
  ct_priority :: "string option"

text \<open>
  What the handler finds around it: the clock, the identifier \<open>crypto.randomUUID()\<close> yields,
  whether the user row exists, and which of the calls to the database and to the workflow
  binding throw.
\<close>

record create_env =
  ce_now_ms :: int
  ce_uuid :: string
  ce_user_exists :: bool
  ce_users_db_throws :: bool
  ce_insert_throws :: bool
  ce_workflow_throws :: bool

datatype outbound =
    TaskCreated task int
  | ErrorMessage string string int

text \<open>What the handler does, in order.\<close>

datatype effect =
    InsertUser string
  | InsertTask task
  | WorkflowCreate workflow_params
  | Send outbound
  | LogInfo string
  | LogError string

definition ensureUser :: "string \<Rightarrow> create_env \<Rightarrow> effect list" where
  "ensureUser userId env =
     (if ce_users_db_throws env then [LogError ''Error ensuring user exists:'']
      else if \<not> ce_user_exists env then [InsertUser userId, LogInfo ''Auto-created user profile'']
      else [])"

text \<open>The \<open>priority\<close> parameter defaults to \<open>'medium'\<close> when the field is undefined.\<close>

definition createTask :: "string \<Rightarrow> string \<Rightarrow> string option \<Rightarrow> int option \<Rightarrow> string option
    \<Rightarrow> create_env \<Rightarrow> wf_error + task" where
  "createTask userId title description dueDate priority env =
     (let taskId = ce_uuid env;
          now = ce_now_ms env div 1000
      in if ce_insert_throws env then Inl (Error ''D1_ERROR'')
         else Inr \<lparr>task_id = taskId, task_userId = userId, task_title = title,
                   task_description = description, task_dueDate = dueDate,
                   task_completed = False,
                   task_priority = (case priority of None \<Rightarrow> ''medium'' | Some p \<Rightarrow> p),
                   task_createdAt = Some now\<rparr>)"

definition schedule_reminder :: "string \<Rightarrow> task \<Rightarrow> create_env \<Rightarrow> effect list" where
  "schedule_reminder userId t env =
     (case task_dueDate t of
        None \<Rightarrow> []
      | Some dueDate \<Rightarrow>
          if dueDate = 0 then []
          else
            let reminderTime = dueDate - (24 * 60 * 60);
                now = ce_now_ms env div 1000
            in if reminderTime > now then
                 (if ce_workflow_throws env
                  then [LogError ''[PersonalAssistant] Failed to schedule reminder workflow:'']
                  else [WorkflowCreate
                          \<lparr>wp_userId = userId, wp_taskId = task_id t, wp_action = ''reminder'',
                           wp_dueDate = Some dueDate,
                           wp_taskDetails = Some \<lparr>td_title = task_title t,
                                                   td_description = task_description t,
                                                   td_priority = Some (task_priority t)\<rparr>\<rparr>,
                        LogInfo ''[PersonalAssistant] Scheduled reminder workflow''])
               else [LogInfo ''[PersonalAssistant] Task due date too soon for reminder (less than 24h)''])"

definition handleCreateTask :: "string \<Rightarrow> create_task_data \<Rightarrow> create_env \<Rightarrow> effect list" where
  "handleCreateTask userId data env =
     ensureUser userId env @
     (case createTask userId (ct_title data) (ct_description data) (ct_dueDate data)
             (ct_priority data) env of
        Inl (Error details) \<Rightarrow>
          [LogError ''Error creating task:'',
           Send (ErrorMessage ''Failed to create task'' details (ce_now_ms env))]
      | Inr t \<Rightarrow>
          InsertTask t # schedule_reminder userId t env @ [Send (TaskCreated t (ce_now_ms env))])"

text \<open>The workflow runs a handler call has enqueued.\<close>

fun enqueued :: "effect list \<Rightarrow> workflow_params list" where
  "enqueued [] = []"
| "enqueued (WorkflowCreate p # es) = p # enqueued es"
| "enqueued (e # es) = enqueued es"

text \<open>The messages a handler call has sent to the client.\<close>

fun sent :: "effect list \<Rightarrow> outbound list" where
  "sent [] = []"
| "sent (Send m # es) = m # sent es"
| "sent (e # es) = sent es"

section \<open>Conversation memory (agent/memory)\<close>

text \<open>
  Modelled from the spec: the module agent/memory (class \<open>MemoryManager\<close> with its token
  estimate, \<open>buildContext\<close> and \<open>prepareRAGContext\<close>) is not among the sources, only its
  unit tests and its callers are. The definitions of this section follow sections 4.2 to
  4.4 of the specification.
\<close>

text \<open>
  Modelled from the spec: the token estimate, "ceiling(character length / 4), zero for
  empty text", in integer arithmetic.
\<close>

definition estimateTokens :: "string \<Rightarrow> nat" where
  "estimateTokens text = (length text + 3) div 4"

text \<open>Modelled from the spec: the options of \<open>build\<close>, all optional (section 4.3).\<close>

record memory_options =
  maxTokens :: "nat option"
  maxMessages :: "nat option"
  systemPrompt :: "string option"

text \<open>Modelled from the spec: the \<open>ConversationContext\<close> of section 3.\<close>

record conversation_context =
  ctx_messages :: "chat_message list"
  ctx_systemPrompt :: "string option"
  totalTokens :: nat
  truncated :: bool

text \<open>Modelled from the spec: the defaults, \<open>maxTokens\<close> 4000 and \<open>maxMessages\<close> 50.\<close>

definition max_tokens :: "memory_options \<Rightarrow> nat" where
  "max_tokens opts = (case maxTokens opts of None \<Rightarrow> 4000 | Some n \<Rightarrow> n)"

definition max_messages :: "memory_options \<Rightarrow> nat" where
  "max_messages opts = (case maxMessages opts of None \<Rightarrow> 50 | Some n \<Rightarrow> n)"

text \<open>Modelled from the spec: step 2, the system prompt's token cost, 0 if absent.\<close>

definition prompt_cost :: "memory_options \<Rightarrow> nat" where
  "prompt_cost opts = (case systemPrompt opts of None \<Rightarrow> 0 | Some p \<Rightarrow> estimateTokens p)"

text \<open>Modelled from the spec: the token cost of a message is the estimate of its content.\<close>

definition message_cost :: "chat_message \<Rightarrow> nat" where
  "message_cost m = estimateTokens (msg_content m)"

text \<open>
  Modelled from the spec: step 3. The messages come newest first; each is accepted while
  the running total stays within the budget, the walk stops at the first that would exceed
  it, and the accepted ones are returned oldest first with the final running total.
\<close>

fun walk :: "nat \<Rightarrow> nat \<Rightarrow> chat_message list \<Rightarrow> chat_message list \<Rightarrow> chat_message list \<times> nat" where
  "walk budget used [] acc = (acc, used)"
| "walk budget used (m # ms) acc =
     (if used + message_cost m > budget then (acc, used)
      else walk budget (used + message_cost m) ms (m # acc))"

text \<open>
  Modelled from the spec: \<open>build(history, options)\<close>, steps 1 to 5 of section 4.3.
  \<open>truncated\<close> follows step 4: the count cap removed a message, or the token cap stopped
  the walk early. (The unit test "should respect message limit" expects \<open>false\<close> when only
  the count cap removed messages.) \<open>totalTokens\<close> is the final running total, which the
  system prompt's cost opens, as the unit test "should include system prompt in context"
  requires.
\<close>

definition buildContext :: "chat_message list \<Rightarrow> memory_options \<Rightarrow> conversation_context" where
  "buildContext history opts =
     (let kept = drop (length history - max_messages opts) history;
          (accepted, used) = walk (max_tokens opts) (prompt_cost opts) (rev kept) []
      in \<lparr>ctx_messages = accepted, ctx_systemPrompt = systemPrompt opts, totalTokens = used,
          truncated = (length kept < length history \<or> length accepted < length kept)\<rparr>)"

text \<open>Modelled from the spec: the snippets of the retrieval message, joined by a blank line.\<close>

fun join_snippets :: "string list \<Rightarrow> string" where
  "join_snippets [] = []"
| "join_snippets [s] = s"
| "join_snippets (s # ss) = s @ [CHR 0x0A, CHR 0x0A] @ join_snippets ss"

text \<open>
  Modelled from the spec: \<open>prepareWithRetrieval\<close> of section 4.4. The history is built
  with 70% of \<open>maxTokens\<close>, then the retrieval message is put in front; its cost is not
  capped. The specification leaves open whether \<open>totalTokens\<close> covers the retrieval
  message; here it does. \<open>now\<close> stamps the synthesized message.
\<close>

definition prepareRAGContext ::
    "int \<Rightarrow> chat_message list \<Rightarrow> string list \<Rightarrow> memory_options \<Rightarrow> conversation_context" where
  "prepareRAGContext now history retrievedContext opts =
     (if retrievedContext = [] then buildContext history opts
      else
        let ragMessage = \<lparr>msg_id = ''rag-context'', msg_role = System,
                           msg_content = ''Relevant context from knowledge base:'' @ [CHR 0x0A]
                                          @ join_snippets retrievedContext,
                           msg_timestamp = now, msg_metadata = None\<rparr>;
            sub = buildContext history (opts\<lparr>maxTokens := Some (max_tokens opts * 7 div 10)\<rparr>)
        in sub\<lparr>ctx_messages := ragMessage # ctx_messages sub,
                totalTokens := totalTokens sub + message_cost ragMessage\<rparr>)"

text \<open>The total character count of a history, as the testable property of section 8 has it.\<close>

definition total_chars :: "chat_message list \<Rightarrow> nat" where
  "total_chars history = sum_list (map (\<lambda>m. length (msg_content m)) history)"


section \<open>Sample inputs\<close>

definition sample_params :: workflow_params where
  "sample_params = \<lparr>wp_userId = ''u1'', wp_taskId = ''t1'', wp_action = ''reminder'',
     wp_dueDate = Some 500000, wp_taskDetails = None\<rparr>"

definition sample_params_undated :: workflow_params where
  "sample_params_undated = \<lparr>wp_userId = ''u1'', wp_taskId = ''t1'', wp_action = ''reminder'',
     wp_dueDate = None, wp_taskDetails = None\<rparr>"

definition sample_row :: "int option \<Rightarrow> int option \<Rightarrow> task_row" where
  "sample_row due done = \<lparr>row_id = ''t1'', row_user_id = ''u1'', row_title = ''Pay rent'',
     row_description = None, row_due_date = due, row_completed = done,
     row_priority = Some ''high'', row_created_at = Some 1000, row_completed_at = None\<rparr>"

text \<open>A world whose clock reads 100000 s, with the given \<open>tasks\<close> table.\<close>

definition sample_world :: "task_row list \<Rightarrow> world" where
  "sample_world rows = \<lparr>tasks = rows, conversations = [], clock_ms = 100000000,
     next_uuid = 0, events = []\<rparr>"

definition sample_message :: "string \<Rightarrow> role \<Rightarrow> string \<Rightarrow> chat_message" where
  "sample_message i r c = \<lparr>msg_id = i, msg_role = r, msg_content = c, msg_timestamp = 0,
     msg_metadata = None\<rparr>"

definition sample_socket :: websocket where
  "sample_socket = \<lparr>ws_id = 1, ws_tags = [''alice''],
     ws_attachment = Some \<lparr>att_userId = ''alice'', att_connectedAt = 10\<rparr>\<rparr>"

text \<open>A \<open>create_task\<close> message with the given due date, and the surroundings of the handler
  at 100000 s, where only the workflow binding may throw.\<close>

definition sample_data :: "int option \<Rightarrow> create_task_data" where
  "sample_data due = \<lparr>ct_title = ''Pay rent'', ct_description = None, ct_dueDate = due,
     ct_priority = None\<rparr>"

definition sample_env :: "bool \<Rightarrow> create_env" where
  "sample_env wf_throws = \<lparr>ce_now_ms = 100000000, ce_uuid = ''task-1'', ce_user_exists = True,
     ce_users_db_throws = False, ce_insert_throws = False, ce_workflow_throws = wf_throws\<rparr>"

section \<open>Properties of the step engine\<close>

lemma step_do_ok:
  "\<not> isl (fst (body (w\<lparr>events := events w @ [StepRun name]\<rparr>))) \<Longrightarrow>
   step_do r name body w = body (w\<lparr>events := events w @ [StepRun name]\<rparr>)"
  by (cases r; cases "body (w\<lparr>events := events w @ [StepRun name]\<rparr>)";
      cases "fst (body (w\<lparr>events := events w @ [StepRun name]\<rparr>))") simp_all

lemma step_do_Inl:
  assumes "\<forall>w. body w = (Inl e, w)"
  shows "step_do r name body w =
           (Inl e, w\<lparr>events := events w @ replicate (Suc r) (StepRun name)\<rparr>)"
proof (induction r arbitrary: w)
  case 0
  have "body (w\<lparr>events := events w @ [StepRun name]\<rparr>)
          = (Inl e, w\<lparr>events := events w @ [StepRun name]\<rparr>)"
    using assms by blast
  then show ?case by simp
next
  case (Suc r)
  have "body (w\<lparr>events := events w @ [StepRun name]\<rparr>)
          = (Inl e, w\<lparr>events := events w @ [StepRun name]\<rparr>)"
    using assms by blast
  then show ?case by (simp add: Suc.IH replicate_app_Cons_same)
qed

lemma sleeps_append: "sleeps (xs @ ys) = sleeps xs @ sleeps ys"
  by (induction xs rule: sleeps.induct) simp_all

lemma sleeps_replicate: "sleeps (replicate n (StepRun x)) = []"
  by (induction n) simp_all

section \<open>Properties of the reminder steps\<close>

lemma verify_step_missing:
  assumes "select_task (wp_taskId p) (wp_userId p) (tasks w) = None"
  shows "step_do r ''verify-task'' (verify_task p) w =
           (Inl (Error ''Task not found''),
            w\<lparr>events := events w @ replicate (Suc r) (StepRun ''verify-task'')\<rparr>)"
  using assms
proof (induction r arbitrary: w)
  case 0
  then show ?case by (simp add: verify_task_def)
next
  case (Suc r)
  have "select_task (wp_taskId p) (wp_userId p)
          (tasks (w\<lparr>events := events w @ [StepRun ''verify-task'']\<rparr>)) = None"
    using Suc.prems by simp
  from Suc.IH[OF this] Suc.prems show ?case
    by (simp add: verify_task_def replicate_app_Cons_same)
qed

lemma verify_step_found:
  assumes "select_task (wp_taskId p) (wp_userId p) (tasks w) = Some row"
  shows "step_do r ''verify-task'' (verify_task p) w =
           (Inr (task_of_row row), w\<lparr>events := events w @ [StepRun ''verify-task'']\<rparr>)"
  by (subst step_do_ok) (simp_all add: verify_task_def assms)

lemma calculate_value:
  assumes "or_num (wp_dueDate p) (row_due_date row) = Some d" and "d \<noteq> 0"
  shows "calculate_reminder_time p (task_of_row row) w =
           (Inr \<lparr>reminderTimestamp = d - 86400, rt_dueDate = d,
                 shouldSendNow = (d - 86400 \<le> now_seconds w),
                 timeUntilReminder = max 0 (d - 86400 - now_seconds w)\<rparr>, w)"
  using assms by (simp add: calculate_reminder_time_def task_of_row_def Let_def)

lemma calculate_step_ok:
  assumes "or_num (wp_dueDate p) (row_due_date row) = Some d" and "d \<noteq> 0"
  shows "step_do r ''calculate-reminder-time'' (calculate_reminder_time p (task_of_row row)) w =
           (Inr \<lparr>reminderTimestamp = d - 86400, rt_dueDate = d,
                 shouldSendNow = (d - 86400 \<le> now_seconds w),
                 timeUntilReminder = max 0 (d - 86400 - now_seconds w)\<rparr>,
            w\<lparr>events := events w @ [StepRun ''calculate-reminder-time'']\<rparr>)"
  by (subst step_do_ok) (simp_all add: calculate_value[OF assms] now_seconds_def)

lemma calculate_step_fail:
  assumes "or_num (wp_dueDate p) (row_due_date row) = None
           \<or> or_num (wp_dueDate p) (row_due_date row) = Some 0"
  shows "step_do r ''calculate-reminder-time'' (calculate_reminder_time p (task_of_row row)) w =
           (Inl (Error ''No due date set for task''),
            w\<lparr>events := events w @ replicate (Suc r) (StepRun ''calculate-reminder-time'')\<rparr>)"
  by (rule step_do_Inl)
     (use assms in \<open>auto simp: calculate_reminder_time_def task_of_row_def\<close>)

lemma recheck_step:
  "step_do r ''recheck-task-status'' (recheck_task_status p) w =
     (Inr (case select_task (wp_taskId p) (wp_userId p) (tasks w) of
             None \<Rightarrow> False | Some row \<Rightarrow> \<not> to_bool (row_completed row)),
      w\<lparr>events := events w @ [StepRun ''recheck-task-status'']\<rparr>)"
  by (subst step_do_ok) (simp_all add: recheck_task_status_def split: option.splits)

lemma send_step:
  "step_do r ''send-reminder'' (send_reminder p t) w =
     send_reminder p t (w\<lparr>events := events w @ [StepRun ''send-reminder'']\<rparr>)"
  by (subst step_do_ok) (simp_all add: send_reminder_def Let_def)

lemma task_of_row_completed [simp]:
  "task_completed (task_of_row row) = to_bool (row_completed row)"
  by (simp add: task_of_row_def)

section \<open>Claims on the reminder workflow\<close>

text \<open>
  C2, as stated: if no task exists for the pair at the verify step, the run fails and the
  failed step is not retried. The run does fail, but the step is not exempt from the engine's
  retries: with one retry granted and an empty \<open>tasks\<close> table the body of the verify step is
  executed twice.
\<close>

theorem reminder_verify_not_retried_counterexample:
  "select_task (wp_taskId sample_params) (wp_userId sample_params) (tasks (sample_world [])) = None
   \<and> fst (handleReminderWorkflow 1 sample_params [] (sample_world []))
       = Inl (Error ''Task not found'')
   \<and> events (snd (handleReminderWorkflow 1 sample_params [] (sample_world [])))
       = [StepRun ''verify-task'', StepRun ''verify-task'']"
  by (simp add: handleReminderWorkflow_def verify_task_def select_task_def sample_params_def
      sample_world_def)

text \<open>
  C2, amended: if no task exists for the (taskId, userId) pair when the verify step runs, the
  step throws "Task not found" at every attempt; the engine retries it as it retries any
  failing step, and when the \<open>r\<close> retries are used up the run fails with that error. Nothing
  else has happened: the world is the initial one but for the \<open>r + 1\<close> recorded attempts of
  the verify step, so no later step ran, nothing slept and no reminder entry was written.
\<close>

theorem reminder_verify_missing_fails:
  assumes "select_task (wp_taskId p) (wp_userId p) (tasks w) = None"
  shows "handleReminderWorkflow r p later w =
           (Inl (Error ''Task not found''),
            w\<lparr>events := events w @ replicate (Suc r) (StepRun ''verify-task'')\<rparr>)"
  by (simp add: handleReminderWorkflow_def verify_step_missing[OF assms])

theorem reminder_verify_missing_fails_witness:
  "select_task (wp_taskId sample_params) (wp_userId sample_params)
     (tasks (sample_world [sample_row (Some 500000) (Some 0)\<lparr>row_user_id := ''u2''\<rparr>])) = None
   \<and> fst (handleReminderWorkflow 3 sample_params []
            (sample_world [sample_row (Some 500000) (Some 0)\<lparr>row_user_id := ''u2''\<rparr>]))
       = Inl (Error ''Task not found'')
   \<and> conversations (snd (handleReminderWorkflow 3 sample_params []
            (sample_world [sample_row (Some 500000) (Some 0)\<lparr>row_user_id := ''u2''\<rparr>]))) = []
   \<and> length (events (snd (handleReminderWorkflow 3 sample_params []
            (sample_world [sample_row (Some 500000) (Some 0)\<lparr>row_user_id := ''u2''\<rparr>])))) = 4"
  using reminder_verify_missing_fails[of sample_params
          "sample_world [sample_row (Some 500000) (Some 0)\<lparr>row_user_id := ''u2''\<rparr>]" 3 "[]"]
  by (simp add: select_task_def sample_params_def sample_world_def sample_row_def)

text \<open>
  C9: if the verify step finds the task and the task is already marked completed, the run
  returns at once with \<open>success = true\<close> and \<open>reminderSent = false\<close>. The only thing that
  happened is one execution of the verify step: no reminder time was computed, nothing
  slept, and the conversation log is untouched.
\<close>

theorem reminder_completed_at_verify:
  assumes "select_task (wp_taskId p) (wp_userId p) (tasks w) = Some row"
      and "to_bool (row_completed row)"
  shows "handleReminderWorkflow r p later w =
           (Inr \<lparr>success = True, message = ''Task already completed, reminder skipped'',
                 reminderSent = Some False, scheduledFor = None,
                 res_taskId = Some (wp_taskId p), res_data = None\<rparr>,
            w\<lparr>events := events w @ [StepRun ''verify-task'']\<rparr>)"
  by (simp add: handleReminderWorkflow_def verify_step_found[OF assms(1)] assms(2))

theorem reminder_completed_at_verify_witness:
  "select_task (wp_taskId sample_params) (wp_userId sample_params)
     (tasks (sample_world [sample_row (Some 500000) (Some 1)])) = Some (sample_row (Some 500000) (Some 1))
   \<and> to_bool (row_completed (sample_row (Some 500000) (Some 1)))
   \<and> reminderSent (projr (fst (handleReminderWorkflow 2 sample_params []
        (sample_world [sample_row (Some 500000) (Some 1)])))) = Some False
   \<and> events (snd (handleReminderWorkflow 2 sample_params []
        (sample_world [sample_row (Some 500000) (Some 1)]))) = [StepRun ''verify-task'']
   \<and> conversations (snd (handleReminderWorkflow 2 sample_params []
        (sample_world [sample_row (Some 500000) (Some 1)]))) = []"
  using reminder_completed_at_verify[of sample_params
          "sample_world [sample_row (Some 500000) (Some 1)]" "sample_row (Some 500000) (Some 1)" 2 "[]"]
  by (simp add: select_task_def sample_params_def sample_world_def sample_row_def to_bool_def
      truthy_num_def)

text \<open>
  C3: when the run reaches the recheck step (the task was found open at the verify step and
  a due date was resolved) and the recheck finds the task completed or no longer there, the
  run ends with \<open>success = true\<close> and \<open>reminderSent = false\<close>, and the conversation log is
  what it was: no reminder entry is written.
\<close>

theorem reminder_recheck_skips:
  assumes "select_task (wp_taskId p) (wp_userId p) (tasks w) = Some row"
      and "\<not> to_bool (row_completed row)"
      and "or_num (wp_dueDate p) (row_due_date row) = Some d" and "d \<noteq> 0"
      and "select_task (wp_taskId p) (wp_userId p) later = None
           \<or> (\<exists>row'. select_task (wp_taskId p) (wp_userId p) later = Some row'
                      \<and> to_bool (row_completed row'))"
  shows "fst (handleReminderWorkflow r p later w) =
           Inr \<lparr>success = True, message = ''Task completed or deleted before reminder time'',
                reminderSent = Some False, scheduledFor = None,
                res_taskId = Some (wp_taskId p), res_data = None\<rparr>
         \<and> conversations (snd (handleReminderWorkflow r p later w)) = conversations w"
  using assms(2,5)
  by (auto simp add: handleReminderWorkflow_def verify_step_found[OF assms(1)]
      calculate_step_ok[OF assms(3,4)] recheck_step Let_def step_sleep_def)

theorem reminder_recheck_skips_witness:
  "select_task (wp_taskId sample_params) (wp_userId sample_params)
     (tasks (sample_world [sample_row None (Some 0)])) = Some (sample_row None (Some 0))
   \<and> \<not> to_bool (row_completed (sample_row None (Some 0)))
   \<and> or_num (wp_dueDate sample_params) (row_due_date (sample_row None (Some 0))) = Some 500000
   \<and> select_task (wp_taskId sample_params) (wp_userId sample_params)
        [sample_row None (Some 1)] = Some (sample_row None (Some 1))
   \<and> to_bool (row_completed (sample_row None (Some 1)))
   \<and> reminderSent (projr (fst (handleReminderWorkflow 2 sample_params [sample_row None (Some 1)]
        (sample_world [sample_row None (Some 0)])))) = Some False
   \<and> success (projr (fst (handleReminderWorkflow 2 sample_params [sample_row None (Some 1)]
        (sample_world [sample_row None (Some 0)]))))
   \<and> conversations (snd (handleReminderWorkflow 2 sample_params [sample_row None (Some 1)]
        (sample_world [sample_row None (Some 0)]))) = []
   \<and> reminderSent (projr (fst (handleReminderWorkflow 2 sample_params []
        (sample_world [sample_row None (Some 0)])))) = Some False"
  using reminder_recheck_skips[of sample_params "sample_world [sample_row None (Some 0)]"
          "sample_row None (Some 0)" 500000 "[sample_row None (Some 1)]" 2]
        reminder_recheck_skips[of sample_params "sample_world [sample_row None (Some 0)]"
          "sample_row None (Some 0)" 500000 "[]" 2]
  by (simp add: select_task_def sample_params_def sample_world_def sample_row_def to_bool_def
      truthy_num_def or_num_def)

text \<open>
  C4, as stated: with a resolvable due date the reminder instant is the due date minus 86400
  seconds, \<open>shouldSendNow\<close> says whether that instant has come, and no sleep occurs when it
  is true; with no resolvable due date the run fails fatally, which the specification
  explains as "not retried". The last part does not hold: the deadline step throws a plain
  \<open>Error\<close> inside \<open>step.do\<close> and is retried like any failing step. With one retry granted,
  an open task without due date and parameters without due date, the body of the deadline
  step is executed twice before the run fails.
\<close>

theorem reminder_no_due_date_not_retried_counterexample:
  "select_task (wp_taskId sample_params_undated) (wp_userId sample_params_undated)
     (tasks (sample_world [sample_row None None])) = Some (sample_row None None)
   \<and> \<not> to_bool (row_completed (sample_row None None))
   \<and> or_num (wp_dueDate sample_params_undated) (row_due_date (sample_row None None)) = None
   \<and> fst (handleReminderWorkflow 1 sample_params_undated [sample_row None None]
        (sample_world [sample_row None None])) = Inl (Error ''No due date set for task'')
   \<and> events (snd (handleReminderWorkflow 1 sample_params_undated [sample_row None None]
        (sample_world [sample_row None None])))
       = [StepRun ''verify-task'', StepRun ''calculate-reminder-time'',
          StepRun ''calculate-reminder-time'']"
  by (simp add: handleReminderWorkflow_def verify_task_def calculate_reminder_time_def
      task_of_row_def select_task_def sample_params_undated_def sample_world_def sample_row_def
      to_bool_def truthy_num_def or_num_def)

text \<open>
  C4, amended: for a run that reaches the deadline step (the task was found open at the
  verify step): if a due date \<open>d\<close> is resolvable (\<open>params.dueDate || task.dueDate\<close> is a
  non-zero number), the computed reminder instant is \<open>d - 86400\<close> seconds, \<open>shouldSendNow\<close>
  is true exactly when that instant is at or before the current time in seconds, and the
  run sleeps exactly when \<open>shouldSendNow\<close> is false, so never when it is true; if no due
  date is resolvable, the deadline step throws "No due date set for task" at every attempt,
  the engine retries it as it retries any failing step, and when the \<open>r\<close> retries are used
  up the run fails with that error. The world is then the initial one but for the recorded
  execution of the verify step and the \<open>r + 1\<close> attempts of the deadline step: nothing
  slept, no later step ran and no reminder entry was written.
\<close>

theorem reminder_deadline:
  assumes "select_task (wp_taskId p) (wp_userId p) (tasks w) = Some row"
      and "\<not> to_bool (row_completed row)"
  shows "(or_num (wp_dueDate p) (row_due_date row) = Some d \<and> d \<noteq> 0 \<longrightarrow>
            fst (calculate_reminder_time p (task_of_row row) w) =
              Inr \<lparr>reminderTimestamp = d - 86400, rt_dueDate = d,
                   shouldSendNow = (d - 86400 \<le> now_seconds w),
                   timeUntilReminder = max 0 (d - 86400 - now_seconds w)\<rparr>
            \<and> sleeps (events (snd (handleReminderWorkflow r p later w))) =
                sleeps (events w) @
                (if d - 86400 \<le> now_seconds w then []
                 else [(''wait-for-reminder-time'', (d - 86400 - now_seconds w) * 1000)]))
       \<and> (or_num (wp_dueDate p) (row_due_date row) = None
            \<or> or_num (wp_dueDate p) (row_due_date row) = Some 0 \<longrightarrow>
            handleReminderWorkflow r p later w =
              (Inl (Error ''No due date set for task''),
               w\<lparr>events := events w @ [StepRun ''verify-task'']
                    @ replicate (Suc r) (StepRun ''calculate-reminder-time'')\<rparr>)
            \<and> conversations (snd (handleReminderWorkflow r p later w)) = conversations w
            \<and> sleeps (events (snd (handleReminderWorkflow r p later w))) = sleeps (events w))"
proof (intro conjI impI)
  assume d: "or_num (wp_dueDate p) (row_due_date row) = Some d \<and> d \<noteq> 0"
  then have d1: "or_num (wp_dueDate p) (row_due_date row) = Some d" and d2: "d \<noteq> 0"
    by simp_all
  show "fst (calculate_reminder_time p (task_of_row row) w) =
          Inr \<lparr>reminderTimestamp = d - 86400, rt_dueDate = d,
               shouldSendNow = (d - 86400 \<le> now_seconds w),
               timeUntilReminder = max 0 (d - 86400 - now_seconds w)\<rparr>"
    by (simp add: calculate_value[OF d1 d2])
  show "sleeps (events (snd (handleReminderWorkflow r p later w))) =
          sleeps (events w) @
          (if d - 86400 \<le> now_seconds w then []
           else [(''wait-for-reminder-time'', (d - 86400 - now_seconds w) * 1000)])"
    using assms(2)
    by (simp add: handleReminderWorkflow_def verify_step_found[OF assms(1)]
        calculate_step_ok[OF d1 d2] recheck_step send_step send_reminder_def Let_def
        step_sleep_def sleeps_append now_seconds_def split: option.splits)
next
  assume n: "or_num (wp_dueDate p) (row_due_date row) = None
             \<or> or_num (wp_dueDate p) (row_due_date row) = Some 0"
  have run: "handleReminderWorkflow r p later w =
          (Inl (Error ''No due date set for task''),
           w\<lparr>events := events w @ [StepRun ''verify-task'']
                @ replicate (Suc r) (StepRun ''calculate-reminder-time'')\<rparr>)"
    using assms(2)
    by (simp add: handleReminderWorkflow_def verify_step_found[OF assms(1)]
        calculate_step_fail[OF n])
  show "handleReminderWorkflow r p later w =
          (Inl (Error ''No due date set for task''),
           w\<lparr>events := events w @ [StepRun ''verify-task'']
                @ replicate (Suc r) (StepRun ''calculate-reminder-time'')\<rparr>)"
    by (rule run)
  show "conversations (snd (handleReminderWorkflow r p later w)) = conversations w"
    by (simp add: run)
  show "sleeps (events (snd (handleReminderWorkflow r p later w))) = sleeps (events w)"
    by (simp add: run sleeps_append sleeps_replicate)
qed

theorem reminder_deadline_witness:
  "select_task (wp_taskId sample_params) (wp_userId sample_params)
     (tasks (sample_world [sample_row None (Some 0)])) = Some (sample_row None (Some 0))
   \<and> \<not> to_bool (row_completed (sample_row None (Some 0)))
   \<and> or_num (wp_dueDate sample_params) (row_due_date (sample_row None (Some 0))) = Some 500000
   \<and> reminderTimestamp (projr (fst (calculate_reminder_time sample_params
        (task_of_row (sample_row None (Some 0))) (sample_world [sample_row None (Some 0)]))))
       = 413600
   \<and> \<not> shouldSendNow (projr (fst (calculate_reminder_time sample_params
        (task_of_row (sample_row None (Some 0))) (sample_world [sample_row None (Some 0)]))))
   \<and> sleeps (events (snd (handleReminderWorkflow 2 sample_params [sample_row None (Some 0)]
        (sample_world [sample_row None (Some 0)]))))
       = [(''wait-for-reminder-time'', 313600000)]
   \<and> or_num (wp_dueDate sample_params_undated) (row_due_date (sample_row (Some 103600) None))
       = Some 103600
   \<and> shouldSendNow (projr (fst (calculate_reminder_time sample_params_undated
        (task_of_row (sample_row (Some 103600) None))
        (sample_world [sample_row (Some 103600) None]))))
   \<and> sleeps (events (snd (handleReminderWorkflow 2 sample_params_undated
        [sample_row (Some 103600) None] (sample_world [sample_row (Some 103600) None])))) = []
   \<and> or_num (wp_dueDate sample_params_undated) (row_due_date (sample_row None None)) = None
   \<and> fst (handleReminderWorkflow 2 sample_params_undated [sample_row None None]
        (sample_world [sample_row None None])) = Inl (Error ''No due date set for task'')
   \<and> events (snd (handleReminderWorkflow 2 sample_params_undated [sample_row None None]
        (sample_world [sample_row None None])))
       = [StepRun ''verify-task'', StepRun ''calculate-reminder-time'',
          StepRun ''calculate-reminder-time'', StepRun ''calculate-reminder-time'']
   \<and> conversations (snd (handleReminderWorkflow 2 sample_params_undated [sample_row None None]
        (sample_world [sample_row None None]))) = []"
  using reminder_deadline[of sample_params "sample_world [sample_row None (Some 0)]"
          "sample_row None (Some 0)" 500000 2 "[sample_row None (Some 0)]"]
        reminder_deadline[of sample_params_undated "sample_world [sample_row (Some 103600) None]"
          "sample_row (Some 103600) None" 103600 2 "[sample_row (Some 103600) None]"]
        reminder_deadline[of sample_params_undated "sample_world [sample_row None None]"
          "sample_row None None" 0 2 "[sample_row None None]"]
  by (simp add: select_task_def sample_params_def sample_params_undated_def sample_world_def
      sample_row_def to_bool_def truthy_num_def or_num_def now_seconds_def numeral_2_eq_2)


section \<open>Properties of the context builder\<close>

lemma walk_all:
  "used + sum_list (map message_cost ms) \<le> budget \<Longrightarrow>
   walk budget used ms acc = (rev ms @ acc, used + sum_list (map message_cost ms))"
  by (induction ms arbitrary: used acc) (simp_all add: add.assoc)

lemma walk_total:
  "snd (walk budget used ms acc) + sum_list (map message_cost acc) =
   used + sum_list (map message_cost (fst (walk budget used ms acc)))"
proof (induction ms arbitrary: used acc)
  case Nil
  show ?case by simp
next
  case (Cons m ms)
  show ?case
  proof (cases "used + message_cost m > budget")
    case True
    then show ?thesis by simp
  next
    case False
    with Cons.IH[of "used + message_cost m" "m # acc"] show ?thesis by simp
  qed
qed

lemma walk_subset: "set (fst (walk budget used ms acc)) \<subseteq> set ms \<union> set acc"
proof (induction ms arbitrary: used acc)
  case Nil
  show ?case by simp
next
  case (Cons m ms)
  show ?case
  proof (cases "used + message_cost m > budget")
    case True
    then show ?thesis by auto
  next
    case False
    with Cons.IH[of "used + message_cost m" "m # acc"] show ?thesis by auto
  qed
qed

lemma buildContext_messages:
  "ctx_messages (buildContext history opts) =
     fst (walk (max_tokens opts) (prompt_cost opts)
            (rev (drop (length history - max_messages opts) history)) [])"
  by (simp add: buildContext_def case_prod_beta Let_def)

lemma buildContext_total:
  "totalTokens (buildContext history opts) =
     snd (walk (max_tokens opts) (prompt_cost opts)
            (rev (drop (length history - max_messages opts) history)) [])"
  by (simp add: buildContext_def case_prod_beta Let_def)

lemma buildContext_subset: "set (ctx_messages (buildContext history opts)) \<subseteq> set history"
  using walk_subset[of "max_tokens opts" "prompt_cost opts"
          "rev (drop (length history - max_messages opts) history)" "[]"]
        set_drop_subset[of "length history - max_messages opts" history]
  by (auto simp add: buildContext_messages)

section \<open>Claims on the context builder\<close>

text \<open>
  C1, as stated: a history whose total character count is at most \<open>4 * maxTokens\<close> and whose
  length is at most \<open>maxMessages\<close> is returned whole, with \<open>truncated = false\<close>. The estimate
  is rounded up for each message, so the estimates can add up to more than a quarter of the
  characters: "Hello" and "Hi" have 7 characters in all, within \<open>4 * 2\<close>, but cost 2 + 1
  tokens, and with \<open>maxTokens = 2\<close> the older message is dropped.
\<close>

theorem buildContext_chars_counterexample:
  "total_chars [sample_message ''1'' User ''Hello'', sample_message ''2'' Assistant ''Hi'']
     \<le> 4 * max_tokens \<lparr>maxTokens = Some 2, maxMessages = None, systemPrompt = None\<rparr>
   \<and> length [sample_message ''1'' User ''Hello'', sample_message ''2'' Assistant ''Hi'']
     \<le> max_messages \<lparr>maxTokens = Some 2, maxMessages = None, systemPrompt = None\<rparr>
   \<and> truncated (buildContext
        [sample_message ''1'' User ''Hello'', sample_message ''2'' Assistant ''Hi'']
        \<lparr>maxTokens = Some 2, maxMessages = None, systemPrompt = None\<rparr>)
   \<and> ctx_messages (buildContext
        [sample_message ''1'' User ''Hello'', sample_message ''2'' Assistant ''Hi'']
        \<lparr>maxTokens = Some 2, maxMessages = None, systemPrompt = None\<rparr>)
      = [sample_message ''2'' Assistant ''Hi'']"
  by (simp add: total_chars_def max_tokens_def max_messages_def buildContext_def
      prompt_cost_def message_cost_def estimateTokens_def sample_message_def)

text \<open>
  C1, amended: for every history whose per-message token estimates, together with the
  estimate of the system prompt (0 if absent), add up to at most \<open>maxTokens\<close>, and whose
  length is at most \<open>maxMessages\<close>, the built context has \<open>truncated = false\<close> and its
  messages are exactly the input messages in their original order.
\<close>

theorem buildContext_within_budget:
  assumes "prompt_cost opts + sum_list (map message_cost history) \<le> max_tokens opts"
      and "length history \<le> max_messages opts"
  shows "\<not> truncated (buildContext history opts)
         \<and> ctx_messages (buildContext history opts) = history"
proof -
  have "prompt_cost opts + sum_list (map message_cost (rev history)) \<le> max_tokens opts"
    using assms(1) by (simp add: rev_map[symmetric])
  from walk_all[OF this, of "[]"] assms(2) show ?thesis
    by (simp add: buildContext_def)
qed

theorem buildContext_within_budget_witness:
  "prompt_cost \<lparr>maxTokens = Some 3, maxMessages = Some 2, systemPrompt = None\<rparr>
     + sum_list (map message_cost
         [sample_message ''1'' User ''Hello'', sample_message ''2'' Assistant ''Hi''])
     \<le> max_tokens \<lparr>maxTokens = Some 3, maxMessages = Some 2, systemPrompt = None\<rparr>
   \<and> length [sample_message ''1'' User ''Hello'', sample_message ''2'' Assistant ''Hi'']
     \<le> max_messages \<lparr>maxTokens = Some 3, maxMessages = Some 2, systemPrompt = None\<rparr>
   \<and> \<not> truncated (buildContext
        [sample_message ''1'' User ''Hello'', sample_message ''2'' Assistant ''Hi'']
        \<lparr>maxTokens = Some 3, maxMessages = Some 2, systemPrompt = None\<rparr>)
   \<and> ctx_messages (buildContext
        [sample_message ''1'' User ''Hello'', sample_message ''2'' Assistant ''Hi'']
        \<lparr>maxTokens = Some 3, maxMessages = Some 2, systemPrompt = None\<rparr>)
      = [sample_message ''1'' User ''Hello'', sample_message ''2'' Assistant ''Hi'']"
  using buildContext_within_budget[of
          "\<lparr>maxTokens = Some 3, maxMessages = Some 2, systemPrompt = None\<rparr>"
          "[sample_message ''1'' User ''Hello'', sample_message ''2'' Assistant ''Hi'']"]
  by (simp add: max_tokens_def max_messages_def prompt_cost_def message_cost_def
      estimateTokens_def sample_message_def)

text \<open>
  C7, as stated: the estimate is the ceiling of a quarter of the length, 0 for the empty
  string, and \<open>totalTokens\<close> of a built context is the sum of the per-message estimates. The
  last part fails when a system prompt is given, since its cost opens the running total:
  with the prompt "You are a helpful assistant." (7 tokens) and the one message "Hello"
  (2 tokens), as in the unit test "should include system prompt in context", the total is 9.
\<close>

theorem totalTokens_sum_counterexample:
  "totalTokens (buildContext [sample_message ''1'' User ''Hello'']
      \<lparr>maxTokens = None, maxMessages = None,
       systemPrompt = Some ''You are a helpful assistant.''\<rparr>) = 9
   \<and> sum_list (map message_cost (ctx_messages (buildContext [sample_message ''1'' User ''Hello'']
      \<lparr>maxTokens = None, maxMessages = None,
       systemPrompt = Some ''You are a helpful assistant.''\<rparr>))) = 2"
  by (simp add: max_tokens_def max_messages_def buildContext_def
      prompt_cost_def message_cost_def estimateTokens_def sample_message_def)

text \<open>
  C7, amended: the token estimate of every text is exactly the ceiling of its character
  length divided by 4, and 0 for the empty string; \<open>totalTokens\<close> of a built context is the
  estimate of the system prompt (0 if absent) plus the sum of the estimates of the messages
  in the context.
\<close>

theorem estimate_and_total:
  "int (estimateTokens t) = \<lceil>real (length t) / 4\<rceil>
   \<and> estimateTokens [] = 0
   \<and> totalTokens (buildContext history opts) =
       prompt_cost opts + sum_list (map message_cost (ctx_messages (buildContext history opts)))"
proof (intro conjI)
  have "\<lceil>real (length t) / 4\<rceil> = \<lceil>real_of_int (int (length t)) / real_of_int 4\<rceil>"
    by simp
  also have "\<dots> = - (- int (length t) div 4)"
    by (rule ceiling_divide_eq_div)
  also have "\<dots> = (int (length t) + 3) div 4"
    by presburger
  also have "\<dots> = int ((length t + 3) div 4)"
    by (simp add: zdiv_int)
  finally show "int (estimateTokens t) = \<lceil>real (length t) / 4\<rceil>"
    by (simp add: estimateTokens_def)
  show "estimateTokens [] = 0"
    by (simp add: estimateTokens_def)
  show "totalTokens (buildContext history opts) =
          prompt_cost opts + sum_list (map message_cost (ctx_messages (buildContext history opts)))"
    using walk_total[of "max_tokens opts" "prompt_cost opts"
            "rev (drop (length history - max_messages opts) history)" "[]"]
    by (simp add: buildContext_messages buildContext_total)
qed

text \<open>
  C8: with an empty list of retrieved snippets, \<open>prepareRAGContext\<close> returns the very context
  \<open>buildContext\<close> returns for the same history and options; every message of the result
  is a message of the history, so no retrieval system message has been added.
\<close>

theorem prepareRAGContext_empty:
  "prepareRAGContext now history [] opts = buildContext history opts
   \<and> set (ctx_messages (prepareRAGContext now history [] opts)) \<subseteq> set history"
  by (simp add: prepareRAGContext_def buildContext_subset)


section \<open>Properties of the connection registry\<close>

lemma distinct_rebuild_one:
  "distinct (map fst m) \<Longrightarrow> distinct (map fst (rebuild_one own now m ws))"
  by (simp add: rebuild_one_def case_prod_beta Let_def distinct_update)

lemma distinct_rebuild_fold:
  "distinct (map fst m) \<Longrightarrow> distinct (map fst (foldl (rebuild_one own now) m wss))"
  by (induction wss arbitrary: m) (simp_all add: distinct_rebuild_one)

lemma registry_rebuildSessions: "registry_ok (rebuildSessions wss now a)"
  by (simp add: registry_ok_def rebuildSessions_def Let_def distinct_rebuild_fold)

lemma registry_constructor: "registry_ok (constructor stored now)"
  by (simp add: registry_ok_def constructor_def sessions_size_def)

lemma registry_activate: "registry_ok (activate stored hist wss now)"
proof (cases stored)
  case None
  then show ?thesis
    by (simp add: activate_def loadState_def constructor_def registry_ok_def sessions_size_def)
next
  case (Some st)
  have "act_storage (constructor (Some st) now) = Some st"
    by (simp add: constructor_def)
  then show ?thesis
    using Some by (simp add: activate_def loadState_def registry_rebuildSessions Let_def)
qed

lemma registry_upgrade:
  "registry_ok a \<Longrightarrow> registry_ok (snd (snd (handleWebSocketUpgrade userId fresh now a)))"
  by (auto simp add: registry_ok_def handleWebSocketUpgrade_def Let_def saveState_def
      distinct_update split: option.splits)

lemma registry_recover:
  "registry_ok a \<Longrightarrow> registry_ok (snd (recover_session ws now a))"
  by (auto simp add: registry_ok_def recover_session_def Let_def case_prod_beta
      distinct_update split: option.splits)

lemma registry_message:
  "registry_ok a \<Longrightarrow> registry_ok (webSocketMessage ws now msg a)"
  using registry_recover[of a ws now]
  by (cases "recover_session ws now a"; cases "fst (recover_session ws now a)"; cases msg)
     (auto simp add: webSocketMessage_def registry_ok_def saveState_def Let_def)

lemma registry_close: "registry_ok a \<Longrightarrow> registry_ok (webSocketClose ws a)"
  by (auto simp add: registry_ok_def webSocketClose_def Let_def saveState_def
      distinct_delete split: option.splits)

lemma registry_error: "registry_ok a \<Longrightarrow> registry_ok (webSocketError ws a)"
  by (auto simp add: registry_ok_def webSocketError_def Let_def
      distinct_delete split: option.splits)

lemma registry_apply_event: "registry_ok a \<Longrightarrow> registry_ok (apply_event a ev)"
  by (cases ev)
     (simp_all add: registry_upgrade registry_message registry_close registry_error
        registry_activate)

lemma registry_run_events: "registry_ok a \<Longrightarrow> registry_ok (run_events a evs)"
  unfolding run_events_def
  by (induction evs arbitrary: a) (simp_all add: registry_apply_event)

text \<open>The canonical user id, once set, stays in the state and in storage.\<close>

lemma canon_upgrade:
  assumes "u \<noteq> []" "as_userId (act_state a) = u" "\<exists>st. act_storage a = Some st \<and> as_userId st = u"
  shows "as_userId (act_state (snd (snd (handleWebSocketUpgrade userId fresh now a)))) = u
        \<and> (\<exists>st. act_storage (snd (snd (handleWebSocketUpgrade userId fresh now a))) = Some st \<and> as_userId st = u)"
  using assms
  by (auto simp add: handleWebSocketUpgrade_def Let_def saveState_def split: option.splits)

lemma canon_message:
  assumes "as_userId (act_state a) = u" "\<exists>st. act_storage a = Some st \<and> as_userId st = u"
  shows "as_userId (act_state (webSocketMessage ws now msg a)) = u
        \<and> (\<exists>st. act_storage (webSocketMessage ws now msg a) = Some st \<and> as_userId st = u)"
proof -
  have r: "as_userId (act_state (snd (recover_session ws now a))) = u
        \<and> act_storage (snd (recover_session ws now a)) = act_storage a"
    using assms(1)
    by (auto simp add: recover_session_def Let_def case_prod_beta split: option.splits)
  show ?thesis
    using r assms(2)
    by (cases "recover_session ws now a"; cases "fst (recover_session ws now a)"; cases msg)
       (auto simp add: webSocketMessage_def saveState_def Let_def)
qed

lemma canon_close:
  assumes "as_userId (act_state a) = u" "\<exists>st. act_storage a = Some st \<and> as_userId st = u"
  shows "as_userId (act_state (webSocketClose ws a)) = u
        \<and> (\<exists>st. act_storage (webSocketClose ws a) = Some st \<and> as_userId st = u)"
  using assms by (auto simp add: webSocketClose_def saveState_def Let_def split: option.splits)

lemma canon_error:
  assumes "as_userId (act_state a) = u" "\<exists>st. act_storage a = Some st \<and> as_userId st = u"
  shows "as_userId (act_state (webSocketError ws a)) = u
        \<and> (\<exists>st. act_storage (webSocketError ws a) = Some st \<and> as_userId st = u)"
  using assms by (auto simp add: webSocketError_def Let_def split: option.splits)

lemma canon_activate:
  assumes "as_userId st = u"
  shows "as_userId (act_state (activate (Some st) hist wss now)) = u
        \<and> act_storage (activate (Some st) hist wss now) = Some st"
  using assms by (simp add: activate_def loadState_def constructor_def rebuildSessions_def Let_def)

lemma canon_apply_event:
  assumes "u \<noteq> []" "as_userId (act_state a) = u" "\<exists>st. act_storage a = Some st \<and> as_userId st = u"
  shows "as_userId (act_state (apply_event a ev)) = u
        \<and> (\<exists>st. act_storage (apply_event a ev) = Some st \<and> as_userId st = u)"
proof (cases ev)
  case (Upgrade x1 x2 x3)
  then show ?thesis using canon_upgrade[OF assms] by simp
next
  case (Message x1 x2 x3)
  then show ?thesis using canon_message[OF assms(2,3)] by simp
next
  case (Close x)
  then show ?thesis using canon_close[OF assms(2,3)] by simp
next
  case (Failure x)
  then show ?thesis using canon_error[OF assms(2,3)] by simp
next
  case (Reactivate hist wss now)
  from assms(3) obtain st where st: "act_storage a = Some st" "as_userId st = u" by blast
  from canon_activate[OF st(2), of hist wss now] Reactivate st show ?thesis by simp
qed

lemma canon_run_events:
  assumes "u \<noteq> []"
  shows "as_userId (act_state a) = u \<Longrightarrow> \<exists>st. act_storage a = Some st \<and> as_userId st = u \<Longrightarrow>
    as_userId (act_state (run_events a evs)) = u
        \<and> (\<exists>st. act_storage (run_events a evs) = Some st \<and> as_userId st = u)"
  unfolding run_events_def
proof (induction evs arbitrary: a)
  case Nil
  then show ?case by simp
next
  case (Cons ev evs)
  from canon_apply_event[OF assms Cons.prems] Cons.IH[of "apply_event a ev"]
  show ?case by simp
qed

lemma upgrade_without_userId:
  "userId = None \<or> userId = Some [] \<Longrightarrow>
   handleWebSocketUpgrade userId fresh now a = (Response 400 (Some ''userId is required''), None, a)"
  by (auto simp add: handleWebSocketUpgrade_def)

lemma first_accept:
  assumes "as_userId (act_state a0) = []" "u \<noteq> []"
  shows "fst (handleWebSocketUpgrade (Some u) fresh now a0) = Response 101 None"
    "as_userId (act_state (snd (snd (handleWebSocketUpgrade (Some u) fresh now a0)))) = u"
    "\<exists>st. act_storage (snd (snd (handleWebSocketUpgrade (Some u) fresh now a0))) = Some st \<and> as_userId st = u"
  using assms by (simp_all add: handleWebSocketUpgrade_def Let_def saveState_def)

lemma mismatch_rejected:
  assumes "as_userId (act_state a) = u" "u \<noteq> []" "u' \<noteq> []" "u' \<noteq> u"
  shows "handleWebSocketUpgrade (Some u') fresh now a = (Response 409 (Some ''userId mismatch''), None, a)"
  using assms by (simp add: handleWebSocketUpgrade_def Let_def)

section \<open>Claims on the connection registry\<close>

text \<open>
  C5: on an actor with no established user id, the first accepted connection (a non-empty
  \<open>userId\<close> parameter) is switched to WebSocket and fixes the canonical user id: whatever
  events follow, hibernation included, the state keeps that id, and every later connection
  attempt that presents a different non-empty user id is answered with status 409 while
  no socket is accepted and the actor is left as it was.
\<close>

theorem canonical_userId_fixed:
  assumes "as_userId (act_state a0) = []" and "u \<noteq> []" and "u' \<noteq> []" and "u' \<noteq> u"
  shows "fst (handleWebSocketUpgrade (Some u) fresh now a0) = Response 101 None
         \<and> as_userId (act_state
              (run_events (snd (snd (handleWebSocketUpgrade (Some u) fresh now a0))) evs)) = u
         \<and> handleWebSocketUpgrade (Some u') fresh' now'
              (run_events (snd (snd (handleWebSocketUpgrade (Some u) fresh now a0))) evs)
            = (Response 409 (Some ''userId mismatch''), None,
               run_events (snd (snd (handleWebSocketUpgrade (Some u) fresh now a0))) evs)"
proof -
  let ?a1 = "snd (snd (handleWebSocketUpgrade (Some u) fresh now a0))"
  note acc = first_accept[OF assms(1,2), of fresh now]
  have fixed: "as_userId (act_state (run_events ?a1 evs)) = u"
    using canon_run_events[OF assms(2) acc(2) acc(3), of evs] by simp
  from mismatch_rejected[OF fixed assms(2,3,4)] acc(1) fixed show ?thesis by simp
qed

theorem canonical_userId_fixed_witness:
  "as_userId (act_state (constructor None 0)) = []
   \<and> fst (handleWebSocketUpgrade (Some ''alice'') 1 10 (constructor None 0)) = Response 101 None
   \<and> as_userId (act_state
        (run_events (snd (snd (handleWebSocketUpgrade (Some ''alice'') 1 10 (constructor None 0))))
           [Close sample_socket, Reactivate [] [] 20])) = ''alice''
   \<and> fst (handleWebSocketUpgrade (Some ''bob'') 2 30
        (run_events (snd (snd (handleWebSocketUpgrade (Some ''alice'') 1 10 (constructor None 0))))
           [Close sample_socket, Reactivate [] [] 20]))
      = Response 409 (Some ''userId mismatch'')
   \<and> fst (snd (handleWebSocketUpgrade (Some ''bob'') 2 30
        (run_events (snd (snd (handleWebSocketUpgrade (Some ''alice'') 1 10 (constructor None 0))))
           [Close sample_socket, Reactivate [] [] 20]))) = None"
  using canonical_userId_fixed[of "constructor None 0" "''alice''" "''bob''" 1 10
          "[Close sample_socket, Reactivate [] [] 20]" 2 30]
  by (simp add: constructor_def)

text \<open>
  C10: the counter \<open>activeWebSockets\<close> of the state equals the number of entries of the
  sessions map after \<open>rebuildSessions\<close>, from any actor, and after every sequence of events
  of an activated actor: accepted and rejected connections, messages with their session
  recovery, \<open>webSocketClose\<close>, \<open>webSocketError\<close> and reactivation. The entries have
  distinct handles, so their number is the size of the map.
\<close>

theorem activeWebSockets_is_sessions_size:
  "activeWebSockets (act_state (rebuildSessions wss now a))
     = sessions_size (act_sessions (rebuildSessions wss now a))
   \<and> activeWebSockets (act_state (run_events (activate stored hist wss0 now0) evs))
     = sessions_size (act_sessions (run_events (activate stored hist wss0 now0) evs))
   \<and> distinct (map fst (act_sessions (run_events (activate stored hist wss0 now0) evs)))"
  using registry_rebuildSessions[of wss now a]
        registry_run_events[OF registry_activate, of stored hist wss0 now0 evs]
  by (simp add: registry_ok_def)

section \<open>Properties of task creation\<close>

lemma enqueued_append: "enqueued (xs @ ys) = enqueued xs @ enqueued ys"
  by (induction xs rule: enqueued.induct) simp_all

lemma sent_append: "sent (xs @ ys) = sent xs @ sent ys"
  by (induction xs rule: sent.induct) simp_all

lemma ensureUser_quiet: "enqueued (ensureUser uid env) = [] \<and> sent (ensureUser uid env) = []"
  by (simp add: ensureUser_def)

lemma schedule_reminder_sends_nothing: "sent (schedule_reminder uid t env) = []"
  by (simp add: schedule_reminder_def Let_def split: option.splits)

lemma more_than_a_day:
  "(now_ms div 1000 < d - 86400) = (now_ms + 86400000 < d * 1000)" for d now_ms :: int
  by linarith

section \<open>Claims on task creation\<close>

text \<open>
  C6: when a task is created (the insert succeeds) with a due date more than 24 hours after
  the current time, and the workflow binding accepts the request, exactly one reminder
  workflow run is enqueued, carrying the user id, the id of the new task, its due date and
  the snapshot of title, description and priority; when the due date is 24 hours away or
  less, or there is none, no run is enqueued; when the binding throws, the failure is logged
  and nothing is enqueued; and in every case the only message sent to the client is
  \<open>task_created\<close> with the new task. The clock is taken to be past the epoch.
\<close>

theorem create_task_reminder_trigger:
  assumes "\<not> ce_insert_throws env" and "0 \<le> ce_now_ms env"
  shows "(ct_dueDate data = Some d \<and> d * 1000 > ce_now_ms env + 86400000
            \<and> \<not> ce_workflow_throws env \<longrightarrow>
            enqueued (handleCreateTask uid data env) =
              [\<lparr>wp_userId = uid, wp_taskId = ce_uuid env, wp_action = ''reminder'',
                wp_dueDate = Some d,
                wp_taskDetails = Some \<lparr>td_title = ct_title data,
                  td_description = ct_description data,
                  td_priority = Some (case ct_priority data of None \<Rightarrow> ''medium'' | Some p \<Rightarrow> p)\<rparr>\<rparr>])
         \<and> (ct_dueDate data = None
              \<or> ct_dueDate data = Some d \<and> d * 1000 \<le> ce_now_ms env + 86400000 \<longrightarrow>
            enqueued (handleCreateTask uid data env) = [])
         \<and> (ct_dueDate data = Some d \<and> d * 1000 > ce_now_ms env + 86400000
              \<and> ce_workflow_throws env \<longrightarrow>
            LogError ''[PersonalAssistant] Failed to schedule reminder workflow:''
              \<in> set (handleCreateTask uid data env)
            \<and> enqueued (handleCreateTask uid data env) = [])
         \<and> sent (handleCreateTask uid data env) =
             [TaskCreated \<lparr>task_id = ce_uuid env, task_userId = uid, task_title = ct_title data,
                task_description = ct_description data, task_dueDate = ct_dueDate data,
                task_completed = False,
                task_priority = (case ct_priority data of None \<Rightarrow> ''medium'' | Some p \<Rightarrow> p),
                task_createdAt = Some (ce_now_ms env div 1000)\<rparr> (ce_now_ms env)]"
proof (intro conjI impI)
  assume h: "ct_dueDate data = Some d \<and> d * 1000 > ce_now_ms env + 86400000
             \<and> \<not> ce_workflow_throws env"
  with assms have "d \<noteq> 0" by auto
  with h assms(1) show "enqueued (handleCreateTask uid data env) =
      [\<lparr>wp_userId = uid, wp_taskId = ce_uuid env, wp_action = ''reminder'',
        wp_dueDate = Some d,
        wp_taskDetails = Some \<lparr>td_title = ct_title data,
          td_description = ct_description data,
          td_priority = Some (case ct_priority data of None \<Rightarrow> ''medium'' | Some p \<Rightarrow> p)\<rparr>\<rparr>]"
    by (simp add: handleCreateTask_def createTask_def schedule_reminder_def Let_def
        enqueued_append ensureUser_quiet more_than_a_day)
next
  assume h: "ct_dueDate data = None
             \<or> ct_dueDate data = Some d \<and> d * 1000 \<le> ce_now_ms env + 86400000"
  with assms(1) show "enqueued (handleCreateTask uid data env) = []"
    by (auto simp add: handleCreateTask_def createTask_def schedule_reminder_def Let_def
        enqueued_append ensureUser_quiet more_than_a_day)
next
  assume h: "ct_dueDate data = Some d \<and> d * 1000 > ce_now_ms env + 86400000
             \<and> ce_workflow_throws env"
  with assms have nz: "d \<noteq> 0" by auto
  with h assms(1) show "LogError ''[PersonalAssistant] Failed to schedule reminder workflow:''
      \<in> set (handleCreateTask uid data env)"
    by (simp add: handleCreateTask_def createTask_def schedule_reminder_def Let_def
        more_than_a_day)
  from nz h assms(1) show "enqueued (handleCreateTask uid data env) = []"
    by (simp add: handleCreateTask_def createTask_def schedule_reminder_def Let_def
        enqueued_append ensureUser_quiet more_than_a_day)
next
  from assms(1) show "sent (handleCreateTask uid data env) =
      [TaskCreated \<lparr>task_id = ce_uuid env, task_userId = uid, task_title = ct_title data,
         task_description = ct_description data, task_dueDate = ct_dueDate data,
         task_completed = False,
         task_priority = (case ct_priority data of None \<Rightarrow> ''medium'' | Some p \<Rightarrow> p),
         task_createdAt = Some (ce_now_ms env div 1000)\<rparr> (ce_now_ms env)]"
    by (simp add: handleCreateTask_def createTask_def Let_def sent_append ensureUser_quiet
        schedule_reminder_sends_nothing)
qed

theorem create_task_reminder_trigger_witness:
  "\<not> ce_insert_throws (sample_env False) \<and> 0 \<le> ce_now_ms (sample_env False)
   \<and> (500000::int) * 1000 > ce_now_ms (sample_env False) + 86400000
   \<and> map wp_taskId (enqueued (handleCreateTask ''alice'' (sample_data (Some 500000)) (sample_env False)))
       = [''task-1'']
   \<and> (186400::int) * 1000 \<le> ce_now_ms (sample_env False) + 86400000
   \<and> enqueued (handleCreateTask ''alice'' (sample_data (Some 186400)) (sample_env False)) = []
   \<and> enqueued (handleCreateTask ''alice'' (sample_data None) (sample_env False)) = []
   \<and> ce_workflow_throws (sample_env True)
   \<and> LogError ''[PersonalAssistant] Failed to schedule reminder workflow:''
       \<in> set (handleCreateTask ''alice'' (sample_data (Some 500000)) (sample_env True))
   \<and> length (sent (handleCreateTask ''alice'' (sample_data (Some 500000)) (sample_env True))) = 1"
  using create_task_reminder_trigger[of "sample_env False" "sample_data (Some 500000)" 500000 "''alice''"]
        create_task_reminder_trigger[of "sample_env False" "sample_data (Some 186400)" 186400 "''alice''"]
        create_task_reminder_trigger[of "sample_env False" "sample_data None" 0 "''alice''"]
        create_task_reminder_trigger[of "sample_env True" "sample_data (Some 500000)" 500000 "''alice''"]
  by (simp add: sample_env_def sample_data_def)


end
